theory Spec2Isabelle
  imports
    Complex_Main
    "HOL-Library.Char_ord"
    "HOL-Library.List_Lexorder"
    "HOL-Library.Multiset"
    "HOL-Library.Product_Lexorder"
begin

section \<open>Hospital waste dashboard (app.py)\<close>

text \<open>
  The program is one script: \<open>load_data\<close> reads a CSV into a pandas data frame, derives the
  columns \<open>Month\<close> and \<open>Bin_Color\<close>; the rest of the script filters the frame by two
  multiselect controls, computes key figures and grouped sums, and hands them to the
  page. The embedding follows the script top to bottom and keeps its names.

  What pandas gives the script is modelled as data:
  \<^item> a cell of a text column is a string or the missing value (\<open>NaN\<close>: an empty CSV field);
  \<^item> a cell of \<open>Date\<close>, after \<open>pd.to_datetime\<close>, is a point in time or \<open>NaT\<close> (\<open>None\<close>);
  \<^item> a cell of \<open>Weight_kg\<close> is a number or \<open>NaN\<close> (\<open>None\<close>). Numbers are exact reals
    and sums are exact. The program's numbers are 64-bit floating point: it reads the
    nearest such number for a decimal of the file and rounds after every addition, so
    two sums of the same weights taken in different orders can differ in the last
    digits there and cannot here. No statement below relies on two such sums being
    the same number.
  The columns \<open>Date\<close>, \<open>Department\<close>, \<open>Weight_kg\<close> and \<open>Infectious\<close> are read by the
  script without a check, so a frame here always has them (they are fields of a
  row). The columns \<open>Waste_Type\<close>, \<open>Month\<close> and \<open>Bin_Color\<close> may be absent: the script
  tests for them or creates them, so a frame carries the list of its column names,
  and a row's field for one of these three is read only when its name is in that list.
\<close>

subsection \<open>Cells, dates, rows and frames\<close>

datatype cell = Str string | NaN

text \<open>Python's \<open>str(v)\<close> of a cell: a string is itself, the missing value prints as \<open>nan\<close>.\<close>

fun py_str :: "cell \<Rightarrow> string" where
  "py_str (Str s) = s"
| "py_str NaN = ''nan''"

datatype month =
  January | February | March | April | May | June
  | July | August | September | October | November | December

fun month_number :: "month \<Rightarrow> nat" where
  "month_number January = 1"
| "month_number February = 2"
| "month_number March = 3"
| "month_number April = 4"
| "month_number May = 5"
| "month_number June = 6"
| "month_number July = 7"
| "month_number August = 8"
| "month_number September = 9"
| "month_number October = 10"
| "month_number November = 11"
| "month_number December = 12"

text \<open>
  A cell of \<open>Date\<close> after \<open>pd.to_datetime\<close> is a point in time: a calendar day and the time
  of that day, in nanoseconds since midnight (0 when the file gives only the day).
  Points in time are compared as the tuple of year, month, day and time.
\<close>

type_synonym date = "int \<times> nat \<times> nat \<times> nat"

record timestamp =
  ts_year :: int
  ts_month :: month
  ts_day :: nat
  ts_time :: nat

definition date_key :: "timestamp \<Rightarrow> date" where
  "date_key t = (ts_year t, month_number (ts_month t), ts_day t, ts_time t)"

record row =
  Date :: "timestamp option"
  Department :: cell
  Weight_kg :: "real option"
  Infectious :: cell
  Waste_Type :: cell
  Month :: cell
  Bin_Color :: cell

record frame =
  columns :: "string list"
  rows :: "row list"

subsection \<open>The classifier\<close>

text \<open>
  Python's \<open>p in s\<close> on strings: \<open>p\<close> occurs in \<open>s\<close> as a contiguous run of characters,
  compared character by character (so upper and lower case differ).
\<close>

definition startswith :: "string \<Rightarrow> string \<Rightarrow> bool" where
  "startswith s p = (take (length p) s = p)"

fun py_in :: "string \<Rightarrow> string \<Rightarrow> bool" where
  "py_in p [] = (p = [])"
| "py_in p (c # cs) = (startswith (c # cs) p \<or> py_in p cs)"

text \<open>
  \<^verbatim>\<open>
  def get_bin_color(infectious, waste_type):
      if infectious == "Yes":
          if "Sharps" in str(waste_type):
              return "Red"
          return "Yellow"
      else:
          if "Recyclable" in str(waste_type):
              return "Blue"
          return "Black"
  \<close>
\<close>

definition get_bin_color :: "cell \<Rightarrow> cell \<Rightarrow> string" where
  "get_bin_color infectious waste_type =
     (if infectious = Str ''Yes'' then
        (if py_in ''Sharps'' (py_str waste_type) then ''Red'' else ''Yellow'')
      else
        (if py_in ''Recyclable'' (py_str waste_type) then ''Blue'' else ''Black''))"

subsection \<open>load_data\<close>

text \<open>\<open>df['Date'].dt.strftime('%B')\<close>: the full English month name; \<open>NaT\<close> gives \<open>NaN\<close>.\<close>

fun month_name :: "month \<Rightarrow> string" where
  "month_name January = ''January''"
| "month_name February = ''February''"
| "month_name March = ''March''"
| "month_name April = ''April''"
| "month_name May = ''May''"
| "month_name June = ''June''"
| "month_name July = ''July''"
| "month_name August = ''August''"
| "month_name September = ''September''"
| "month_name October = ''October''"
| "month_name November = ''November''"
| "month_name December = ''December''"

fun strftime_B :: "timestamp option \<Rightarrow> cell" where
  "strftime_B None = NaN"
| "strftime_B (Some t) = Str (month_name (ts_month t))"

text \<open>\<open>df[name] = ...\<close> keeps the column's place when it exists and appends it otherwise.\<close>

definition set_column :: "string \<Rightarrow> string list \<Rightarrow> string list" where
  "set_column name cols = (if name \<in> set cols then cols else cols @ [name])"

text \<open>
  \<open>x.get('Waste_Type', '')\<close> on a row \<open>x\<close> of the frame: the cell when the frame has the
  column, the empty string otherwise.
\<close>

definition get_Waste_Type :: "string list \<Rightarrow> row \<Rightarrow> cell" where
  "get_Waste_Type cols x = (if ''Waste_Type'' \<in> set cols then Waste_Type x else Str '''')"

text \<open>
  \<^verbatim>\<open>
  df['Month'] = df['Date'].dt.strftime('%B')
  \<close>
\<close>

definition assign_Month :: "frame \<Rightarrow> frame" where
  "assign_Month df =
     \<lparr>columns = set_column ''Month'' (columns df),
      rows = map (\<lambda>x. x\<lparr>Month := strftime_B (Date x)\<rparr>) (rows df)\<rparr>"

text \<open>
  \<^verbatim>\<open>
  if 'Bin_Color' not in df.columns:
      df['Bin_Color'] = df.apply(
          lambda x: get_bin_color(x['Infectious'], x.get('Waste_Type', '')), axis=1)
  \<close>
\<close>

definition assign_Bin_Color :: "frame \<Rightarrow> frame" where
  "assign_Bin_Color df =
     (if ''Bin_Color'' \<notin> set (columns df) then
        \<lparr>columns = columns df @ [''Bin_Color''],
         rows = map (\<lambda>x. x\<lparr>Bin_Color :=
                  Str (get_bin_color (Infectious x) (get_Waste_Type (columns df) x))\<rparr>) (rows df)\<rparr>
      else df)"

text \<open>
  \<open>load_data\<close>, from the frame that \<open>pd.read_csv\<close> and \<open>pd.to_datetime\<close> produced (a file
  that is missing or does not parse stops the program before this point).
\<close>

definition load_data :: "frame \<Rightarrow> frame" where
  "load_data csv = assign_Bin_Color (assign_Month csv)"

subsection \<open>Sidebar controls and the filter\<close>

definition month_order :: "string list" where
  "month_order =
     [''January'', ''February'', ''March'', ''April'', ''May'', ''June'',
      ''July'', ''August'', ''September'', ''October'', ''November'', ''December'']"

text \<open>\<open>Series.unique()\<close>: the distinct values in order of first appearance, \<open>NaN\<close> included.\<close>

definition unique :: "'a list \<Rightarrow> 'a list" where
  "unique xs = rev (remdups (rev xs))"

text \<open>
  \<^verbatim>\<open>
  available_months = [m for m in month_order if m in df['Month'].unique()]
  \<close>
\<close>

definition available_months :: "frame \<Rightarrow> string list" where
  "available_months df = [m \<leftarrow> month_order. Str m \<in> set (unique (map Month (rows df)))]"

text \<open>
  The two \<open>st.sidebar.multiselect\<close> controls return what the user has selected; on the
  first run that is the \<open>default\<close> argument. The selection is an input of the page.
\<close>

record controls =
  selected_months :: "string list"
  selected_dept :: "cell list"

text \<open>
  On every run, before it returns anything, a multiselect checks that each value of
  its \<open>default\<close> is among its \<open>options\<close> (Python's \<open>value in options\<close> on the two lists) and
  raises \<open>StreamlitAPIException\<close> otherwise. A text is found when an equal text is an
  option. A missing value equals nothing, itself included, so it is found only when
  the option is the very same object. That depends on the column: \<open>read_csv\<close> gives a
  column with at least one text the type \<open>object\<close>, where every missing cell is the one
  object \<open>np.nan\<close>; a column with no text at all (and at least one row) gets the type
  \<open>float64\<close>, and the two calls of \<open>unique()\<close> then hand the widget two different objects.
\<close>

datatype error = StreamlitAPIException

definition float64_column :: "cell list \<Rightarrow> bool" where
  "float64_column cs = (cs \<noteq> [] \<and> list_all (\<lambda>v. v = NaN) cs)"

definition py_in_list :: "bool \<Rightarrow> cell \<Rightarrow> cell list \<Rightarrow> bool" where
  "py_in_list same_nan v options =
     (case v of Str s \<Rightarrow> Str s \<in> set options | NaN \<Rightarrow> same_nan \<and> NaN \<in> set options)"

definition multiselect_accepts :: "bool \<Rightarrow> cell list \<Rightarrow> cell list \<Rightarrow> bool" where
  "multiselect_accepts same_nan options defaults =
     list_all (\<lambda>v. py_in_list same_nan v options) defaults"

text \<open>
  \<^verbatim>\<open>
  selected_months = st.sidebar.multiselect("Select Month(s):",
      options=available_months, default=available_months, ...)
  selected_dept = st.sidebar.multiselect("Filter by Department:",
      options=df["Department"].unique(), default=df["Department"].unique())
  \<close>
\<close>

definition sidebar_accepts :: "frame \<Rightarrow> bool" where
  "sidebar_accepts df =
     (multiselect_accepts True (map Str (available_months df)) (map Str (available_months df))
      \<and> multiselect_accepts (\<not> float64_column (map Department (rows df)))
            (unique (map Department (rows df))) (unique (map Department (rows df))))"

text \<open>The state of the controls on the first run, or the exception.\<close>

definition default_controls :: "frame \<Rightarrow> error + controls" where
  "default_controls df =
     (if sidebar_accepts df then
        Inr \<lparr>selected_months = available_months df,
             selected_dept = unique (map Department (rows df))\<rparr>
      else Inl StreamlitAPIException)"

text \<open>
  \<open>Series.isin(values)\<close>, cell by cell: membership in the list, where a missing cell
  matches a missing value of the list.
\<close>

definition isin :: "cell \<Rightarrow> cell list \<Rightarrow> bool" where
  "isin v values = (v \<in> set values)"

text \<open>
  \<^verbatim>\<open>
  mask = (
      (df["Month"].isin(selected_months)) &
      (df["Department"].isin(selected_dept))
  )
  filtered_df = df.loc[mask]
  \<close>
  The mask is a truth value per row; \<open>df.loc[mask]\<close> keeps the rows where it is true, in
  their order, under the same columns.
\<close>

definition mask_row :: "controls \<Rightarrow> row \<Rightarrow> bool" where
  "mask_row c =
     (\<lambda>x. isin (Month x) (map Str (selected_months c)) \<and> isin (Department x) (selected_dept c))"

definition filtered_df :: "frame \<Rightarrow> controls \<Rightarrow> frame" where
  "filtered_df df c = \<lparr>columns = columns df, rows = filter (mask_row c) (rows df)\<rparr>"

text \<open>
  \<^verbatim>\<open>
  if len(selected_months) == 12:
      period_text = "Full Year 2024"
  else:
      period_text = f"{', '.join(selected_months)} 2024"
  \<close>
\<close>

fun join :: "string \<Rightarrow> string list \<Rightarrow> string" where
  "join sep [] = ''''"
| "join sep [s] = s"
| "join sep (s # t # ts) = s @ sep @ join sep (t # ts)"

definition period_text :: "controls \<Rightarrow> string" where
  "period_text c =
     (if length (selected_months c) = 12 then ''Full Year 2024''
      else join '', '' (selected_months c) @ '' 2024'')"

subsection \<open>Key metrics\<close>

text \<open>
  The reductions of a numeric column skip missing values. \<open>sum\<close> of nothing is 0;
  \<open>mean\<close> and \<open>max\<close> of nothing are \<open>NaN\<close> (\<open>None\<close>).
\<close>

primrec dropna :: "'a option list \<Rightarrow> 'a list" where
  "dropna [] = []"
| "dropna (v # vs) = (case v of None \<Rightarrow> dropna vs | Some a \<Rightarrow> a # dropna vs)"

definition series_sum :: "real option list \<Rightarrow> real" where
  "series_sum ws = sum_list (dropna ws)"

definition series_mean :: "real option list \<Rightarrow> real option" where
  "series_mean ws =
     (let vs = dropna ws in if vs = [] then None else Some (sum_list vs / real (length vs)))"

definition series_max :: "real option list \<Rightarrow> real option" where
  "series_max ws = (case dropna ws of [] \<Rightarrow> None | v # vs \<Rightarrow> Some (fold max vs v))"

text \<open>
  \<^verbatim>\<open>
  total_waste = filtered_df["Weight_kg"].sum()
  infectious_waste = filtered_df[filtered_df["Infectious"] == "Yes"]["Weight_kg"].sum()
  avg_daily = filtered_df["Weight_kg"].mean()
  max_waste = filtered_df["Weight_kg"].max()
  \<close>
\<close>

definition total_waste :: "frame \<Rightarrow> real" where
  "total_waste fdf = series_sum (map Weight_kg (rows fdf))"

definition infectious_waste :: "frame \<Rightarrow> real" where
  "infectious_waste fdf =
     series_sum (map Weight_kg [x \<leftarrow> rows fdf. Infectious x = Str ''Yes''])"

definition avg_daily :: "frame \<Rightarrow> real option" where
  "avg_daily fdf = series_mean (map Weight_kg (rows fdf))"

definition max_waste :: "frame \<Rightarrow> real option" where
  "max_waste fdf = series_max (map Weight_kg (rows fdf))"

subsection \<open>Number formatting\<close>

text \<open>
  The format specification \<open>,.Nf\<close> of an f-string: fixed point with \<open>N\<close> decimals, a comma
  between groups of three integer digits, ties rounded to the even neighbour, and
  \<open>nan\<close> for a \<open>NaN\<close>. The value formatted is the exact number given: Python is given
  the floating-point number, which for a decimal such as 2.675 lies a little below it
  and prints as 2.67, where the exact 2.675 is a tie and prints as 2.68.
\<close>

definition round_half_even :: "real \<Rightarrow> int" where
  "round_half_even x =
     (let f = \<lfloor>x\<rfloor>; d = x - of_int f in
      if d < 1 / 2 then f else if 1 / 2 < d then f + 1 else if even f then f else f + 1)"

fun digits :: "nat \<Rightarrow> string" where
  "digits n = (if n < 10 then [''0123456789'' ! n] else digits (n div 10) @ [''0123456789'' ! (n mod 10)])"

fun group3 :: "string \<Rightarrow> string" where
  "group3 ds =
     (if length ds \<le> 3 then ds
      else group3 (take (length ds - 3) ds) @ '','' @ drop (length ds - 3) ds)"

definition zero_pad :: "nat \<Rightarrow> string \<Rightarrow> string" where
  "zero_pad n s = replicate (n - length s) (CHR ''0'') @ s"

definition format_fixed :: "nat \<Rightarrow> real \<Rightarrow> string" where
  "format_fixed n x =
     (let scaled = nat (round_half_even (\<bar>x\<bar> * 10 ^ n));
          ip = scaled div 10 ^ n;
          fp = scaled mod 10 ^ n
      in (if x < 0 then ''-'' else '''') @ group3 (digits ip)
         @ (if n = 0 then '''' else ''.'' @ zero_pad n (digits fp)))"

definition format_f :: "nat \<Rightarrow> real option \<Rightarrow> string" where
  "format_f n v = (case v of None \<Rightarrow> ''nan'' | Some x \<Rightarrow> format_fixed n x)"

subsection \<open>Grouped sums\<close>

text \<open>
  \<open>frame.groupby(key)["Weight_kg"].sum().reset_index()\<close>: one line per distinct key
  with the sum of the weights of the rows that have it, the keys in ascending order.
  \<open>groupby\<close> leaves out the rows whose key is missing (its default \<open>dropna=True\<close>), and the
  sum skips missing weights. A key function gives \<open>None\<close> for a missing key.
\<close>

fun cell_key :: "cell \<Rightarrow> string option" where
  "cell_key (Str s) = Some s"
| "cell_key NaN = None"

definition groupby_sum :: "(row \<Rightarrow> 'k::linorder option) \<Rightarrow> row list \<Rightarrow> ('k \<times> real) list" where
  "groupby_sum key xs =
     map (\<lambda>k. (k, series_sum (map Weight_kg [x \<leftarrow> xs. key x = Some k])))
       (sort (remdups (dropna (map key xs))))"

text \<open>
  \<open>sort_values("Weight_kg")\<close> of a grouped table, ascending or descending. Lines with
  equal sums stay in the order they had (for the short tables of this page; on long
  tables their order is the library's choice).
\<close>

definition sort_values :: "bool \<Rightarrow> ('k \<times> real) list \<Rightarrow> ('k \<times> real) list" where
  "sort_values ascending t =
     (if ascending then sort_key snd t else sort_key (\<lambda>line. - snd line) t)"

text \<open>
  \<^verbatim>\<open>
  dept_group = filtered_df.groupby("Department")["Weight_kg"].sum()
                          .reset_index().sort_values("Weight_kg")
  type_group = filtered_df.groupby("Waste_Type")["Weight_kg"].sum()
                          .reset_index().sort_values("Weight_kg", ascending=False)
  bin_group = filtered_df.groupby("Bin_Color")["Weight_kg"].sum().reset_index()
  grouped_df = filtered_df.groupby(["Department", "Infectious"])["Weight_kg"].sum()
                          .reset_index()
  trend_data = filtered_df.sort_values("Date").groupby("Date")["Weight_kg"].sum()
                          .reset_index()
  \<close>
\<close>

definition dept_group :: "frame \<Rightarrow> (string \<times> real) list" where
  "dept_group fdf = sort_values True (groupby_sum (\<lambda>x. cell_key (Department x)) (rows fdf))"

definition type_group :: "frame \<Rightarrow> (string \<times> real) list" where
  "type_group fdf = sort_values False (groupby_sum (\<lambda>x. cell_key (Waste_Type x)) (rows fdf))"

definition bin_group :: "frame \<Rightarrow> (string \<times> real) list" where
  "bin_group fdf = groupby_sum (\<lambda>x. cell_key (Bin_Color x)) (rows fdf)"

definition pair_key :: "row \<Rightarrow> (string \<times> string) option" where
  "pair_key x =
     (case (cell_key (Department x), cell_key (Infectious x)) of
        (Some d, Some i) \<Rightarrow> Some (d, i)
      | _ \<Rightarrow> None)"

definition grouped_df :: "frame \<Rightarrow> ((string \<times> string) \<times> real) list" where
  "grouped_df fdf = groupby_sum pair_key (rows fdf)"

text \<open>\<open>sort_values("Date")\<close> of the frame: by date, the rows without a date last.\<close>

definition sort_values_Date :: "row list \<Rightarrow> row list" where
  "sort_values_Date xs =
     sort_key (\<lambda>x. case Date x of Some t \<Rightarrow> date_key t | None \<Rightarrow> (0, 0, 0, 0))
       [x \<leftarrow> xs. Date x \<noteq> None]
     @ [x \<leftarrow> xs. Date x = None]"

definition trend_data :: "frame \<Rightarrow> (date \<times> real) list" where
  "trend_data fdf =
     groupby_sum (\<lambda>x. map_option date_key (Date x)) (sort_values_Date (rows fdf))"

subsection \<open>The CSV export\<close>

text \<open>
  \<open>frame.to_csv(index=False)\<close> writes a header line with the column names and one
  line per row with that row's value under each column, and no column of row labels.
  The export is kept as a table of values: how a number or a date is printed, and the
  quoting of a text, are the library's. This model holds the seven columns the script
  reads or writes; a value under any other column name is not modelled.
\<close>

datatype csv_value = Text cell | Number "real option" | Timestamp "timestamp option" | Unmodelled

definition csv_value_of :: "row \<Rightarrow> string \<Rightarrow> csv_value" where
  "csv_value_of x name =
     (if name = ''Date'' then Timestamp (Date x)
      else if name = ''Department'' then Text (Department x)
      else if name = ''Weight_kg'' then Number (Weight_kg x)
      else if name = ''Infectious'' then Text (Infectious x)
      else if name = ''Waste_Type'' then Text (Waste_Type x)
      else if name = ''Month'' then Text (Month x)
      else if name = ''Bin_Color'' then Text (Bin_Color x)
      else Unmodelled)"

record csv_table =
  header :: "string list"
  lines :: "csv_value list list"

definition to_csv :: "frame \<Rightarrow> csv_table" where
  "to_csv fdf =
     \<lparr>header = columns fdf,
      lines = map (\<lambda>x. map (csv_value_of x) (columns fdf)) (rows fdf)\<rparr>"

text \<open>\<open>text.encode(codec)\<close>: the bytes of the text under the named codec.\<close>

record encoded =
  codec :: string
  content :: csv_table

definition encode :: "string \<Rightarrow> csv_table \<Rightarrow> encoded" where
  "encode name t = \<lparr>codec = name, content = t\<rparr>"

subsection \<open>The page\<close>

text \<open>
  What one run of the script puts on the page once the sidebar has accepted its
  controls, from the frame read from the file and the state of the two controls: the caption, the four key metrics, the six charts, the
  table and the download button. A chart is given by the data handed to plotly. A
  \<open>groupby\<close> on a column the frame does not have raises \<open>KeyError\<close>; the script tests
  for \<open>Waste_Type\<close> and \<open>Bin_Color\<close> before it groups by them, so the place of the
  waste-type chart holds a warning when the column is missing, and the place of the
  bin-colour chart stays empty when that column is.
  \<^verbatim>\<open>
  kpi1.metric("Total Waste Volume", f"{total_waste:,.1f} kg", delta="Accumulated")
  kpi2.metric("Infectious Waste", f"{infectious_waste:,.1f} kg", ...)
  kpi3.metric("Avg. Daily Output", f"{avg_daily:,.2f} kg")
  kpi4.metric("Max Recorded Spike", f"{max_waste:,.2f} kg")
  ...
  if "Waste_Type" in filtered_df.columns:
      type_group = ...
      st.plotly_chart(fig_type, use_container_width=True)
  else:
      st.warning("Waste_Type column missing.")
  ...
  if "Bin_Color" in filtered_df.columns:
      bin_group = ...
      st.plotly_chart(fig_bin, use_container_width=True)
  ...
  csv = filtered_df.to_csv(index=False).encode('utf-8')
  st.download_button(label="Download Filtered Data as CSV", data=csv,
                     file_name='hospital_waste_audit_data.csv', mime='text/csv')
  \<close>
\<close>

datatype 'a view = Chart 'a | Warning string | Nothing

record download =
  label :: string
  data :: encoded
  file_name :: string
  mime :: string

record page =
  caption :: string
  kpi1 :: string
  kpi2 :: string
  kpi3 :: string
  kpi4 :: string
  fig_pie :: "(cell \<times> real option) list view"
  fig_bar :: "(string \<times> real) list view"
  fig_type :: "(string \<times> real) list view"
  fig_bin :: "(string \<times> real) list view"
  fig_grouped :: "((string \<times> string) \<times> real) list view"
  fig_line :: "(date \<times> real) list view"
  dataframe :: frame
  download_button :: download

definition app :: "frame \<Rightarrow> controls \<Rightarrow> page" where
  "app csv c =
     (let df = load_data csv;
          fdf = filtered_df df c
      in \<lparr>caption = ''**Reporting Period:** '' @ period_text c,
          kpi1 = format_f 1 (Some (total_waste fdf)) @ '' kg'',
          kpi2 = format_f 1 (Some (infectious_waste fdf)) @ '' kg'',
          kpi3 = format_f 2 (avg_daily fdf) @ '' kg'',
          kpi4 = format_f 2 (max_waste fdf) @ '' kg'',
          fig_pie = Chart (map (\<lambda>x. (Infectious x, Weight_kg x)) (rows fdf)),
          fig_bar = Chart (dept_group fdf),
          fig_type =
            (if ''Waste_Type'' \<in> set (columns fdf) then Chart (type_group fdf)
             else Warning ''Waste_Type column missing.''),
          fig_bin =
            (if ''Bin_Color'' \<in> set (columns fdf) then Chart (bin_group fdf) else Nothing),
          fig_grouped = Chart (grouped_df fdf),
          fig_line = Chart (trend_data fdf),
          dataframe = fdf,
          download_button =
            \<lparr>label = ''Download Filtered Data as CSV'',
             data = encode ''utf-8'' (to_csv fdf),
             file_name = ''hospital_waste_audit_data.csv'',
             mime = ''text/csv''\<rparr>\<rparr>)"


subsection \<open>Grouped tables, as the specification describes them\<close>

text \<open>
  What "the sum of \<open>Weight_kg\<close> grouped by a key" asks of a table, for comparison with
  \<open>groupby_sum\<close>: one line per key that occurs among the records, no key twice, and on
  each line the sum of the weights of the records with that key.
\<close>

definition grouped_table :: "(row \<Rightarrow> 'k option) \<Rightarrow> row list \<Rightarrow> ('k \<times> real) list \<Rightarrow> bool" where
  "grouped_table key xs t \<longleftrightarrow>
     distinct (map fst t)
     \<and> set (map fst t) = {k. \<exists>x\<in>set xs. key x = Some k}
     \<and> (\<forall>(k, v)\<in>set t. v = series_sum (map Weight_kg [x \<leftarrow> xs. key x = Some k]))"


subsection \<open>The decision table of the specification\<close>

text \<open>
  The classification as the specification words it, for comparison with
  \<open>get_bin_color\<close>: a waste-type text \<open>contains\<close> a word when the word occurs in it as a
  contiguous run of characters, and a record whose \<open>Waste_Type\<close> is missing (no such
  column, or an empty cell) has the empty text.
\<close>

definition contains :: "string \<Rightarrow> string \<Rightarrow> bool" where
  "contains s p = (\<exists>a b. s = a @ p @ b)"

definition decision_table :: "cell \<Rightarrow> string \<Rightarrow> string" where
  "decision_table infectious waste_type =
     (if infectious = Str ''Yes'' \<and> contains waste_type ''Sharps'' then ''Red''
      else if infectious = Str ''Yes'' then ''Yellow''
      else if contains waste_type ''Recyclable'' then ''Blue''
      else ''Black'')"

definition waste_type_text :: "string list \<Rightarrow> row \<Rightarrow> string" where
  "waste_type_text cols x =
     (if ''Waste_Type'' \<in> set cols then (case Waste_Type x of Str s \<Rightarrow> s | NaN \<Rightarrow> '''')
      else '''')"

subsection \<open>A small data set\<close>

text \<open>
  Four records of a file that has the optional column \<open>Waste_Type\<close> and no \<open>Month\<close> or
  \<open>Bin_Color\<close> yet, used to run the definitions on concrete data. The last two are of
  the same day, one dated with the day alone and one at noon.
\<close>

definition record1 :: row where
  "record1 =
     \<lparr>Date = Some \<lparr>ts_year = 2024, ts_month = March, ts_day = 5, ts_time = 0\<rparr>, Department = Str ''ICU'',
      Weight_kg = Some 12.5, Infectious = Str ''Yes'', Waste_Type = Str ''Sharps Container'',
      Month = NaN, Bin_Color = NaN\<rparr>"

definition record2 :: row where
  "record2 =
     \<lparr>Date = Some \<lparr>ts_year = 2024, ts_month = March, ts_day = 6, ts_time = 0\<rparr>, Department = Str ''Lab'',
      Weight_kg = Some 3, Infectious = Str ''No'', Waste_Type = Str ''Recyclable Plastic'',
      Month = NaN, Bin_Color = NaN\<rparr>"

definition record3 :: row where
  "record3 =
     \<lparr>Date = Some \<lparr>ts_year = 2024, ts_month = January, ts_day = 10, ts_time = 0\<rparr>, Department = Str ''Lab'',
      Weight_kg = Some 4.5, Infectious = Str ''yes'', Waste_Type = Str ''Gauze'',
      Month = NaN, Bin_Color = NaN\<rparr>"

definition record4 :: row where
  "record4 =
     \<lparr>Date = Some \<lparr>ts_year = 2024, ts_month = January, ts_day = 10,
                    ts_time = 43200000000000\<rparr>,
      Department = Str ''Lab'',
      Weight_kg = Some 2, Infectious = Str ''Yes'', Waste_Type = NaN,
      Month = NaN, Bin_Color = NaN\<rparr>"

definition example_csv :: frame where
  "example_csv =
     \<lparr>columns = [''Date'', ''Department'', ''Weight_kg'', ''Infectious'', ''Waste_Type''],
      rows = [record1, record2, record3, record4]\<rparr>"



text \<open>
  A file of two records, the first with an empty \<open>Department\<close> field: the column has a
  text, so it is of type \<open>object\<close>.
\<close>

definition missing_department_csv :: frame where
  "missing_department_csv =
     \<lparr>columns = [''Date'', ''Department'', ''Weight_kg'', ''Infectious''],
      rows = [record1\<lparr>Department := NaN\<rparr>, record2]\<rparr>"

text \<open>A file of one record whose \<open>Date\<close> field is empty.\<close>

definition no_date_csv :: frame where
  "no_date_csv =
     \<lparr>columns = [''Date'', ''Department'', ''Weight_kg'', ''Infectious''],
      rows = [record1\<lparr>Date := None\<rparr>]\<rparr>"

section \<open>Properties\<close>

subsection \<open>Substring test\<close>

lemma startswith_iff: "startswith s p \<longleftrightarrow> (\<exists>b. s = p @ b)"
proof
  assume "startswith s p"
  then have "s = p @ drop (length p) s"
    unfolding startswith_def by (metis append_take_drop_id)
  then show "\<exists>b. s = p @ b" ..
next
  assume "\<exists>b. s = p @ b"
  then show "startswith s p" unfolding startswith_def by auto
qed

lemma py_in_iff: "py_in p s \<longleftrightarrow> (\<exists>a b. s = a @ p @ b)"
proof (induction s)
  case Nil
  then show ?case by auto
next
  case (Cons c cs)
  show ?case
  proof
    assume "py_in p (c # cs)"
    then consider "startswith (c # cs) p" | "py_in p cs" by auto
    then show "\<exists>a b. c # cs = a @ p @ b"
    proof cases
      case 1
      then obtain b where "c # cs = p @ b" using startswith_iff by blast
      then have "c # cs = [] @ p @ b" by simp
      then show ?thesis by blast
    next
      case 2
      then obtain a b where "cs = a @ p @ b" using Cons.IH by blast
      then have "c # cs = (c # a) @ p @ b" by simp
      then show ?thesis by blast
    qed
  next
    assume "\<exists>a b. c # cs = a @ p @ b"
    then obtain a b where ab: "c # cs = a @ p @ b" by blast
    show "py_in p (c # cs)"
    proof (cases a)
      case Nil
      then have "startswith (c # cs) p" using ab startswith_iff by auto
      then show ?thesis by simp
    next
      case (Cons a0 as)
      then have "cs = as @ p @ b" using ab by simp
      then have "py_in p cs" using Cons.IH by blast
      then show ?thesis by simp
    qed
  qed
qed

lemma contains_py_in: "contains s p = py_in p s"
  by (simp add: contains_def py_in_iff)

subsection \<open>The classifier\<close>

lemma get_bin_color_table:
  "get_bin_color i w = decision_table i (py_str w)"
  by (simp add: get_bin_color_def decision_table_def contains_py_in)

lemma decision_table_nan: "decision_table i ''nan'' = decision_table i ''''"
  by (simp add: decision_table_def contains_py_in startswith_def)

lemma get_Waste_Type_text:
  "decision_table i (py_str (get_Waste_Type cols x)) = decision_table i (waste_type_text cols x)"
  by (cases "Waste_Type x")
     (simp_all add: get_Waste_Type_def waste_type_text_def decision_table_nan)

lemma columns_assign_Month: "set (columns (assign_Month df)) = insert ''Month'' (set (columns df))"
  by (auto simp: assign_Month_def set_column_def)

lemma rows_load_data_fresh:
  assumes "''Bin_Color'' \<notin> set (columns csv)"
  shows "rows (load_data csv) =
     map (\<lambda>x. x\<lparr>Month := strftime_B (Date x),
                Bin_Color := Str (get_bin_color (Infectious x) (get_Waste_Type (columns csv) x))\<rparr>)
       (rows csv)"
proof -
  have "''Bin_Color'' \<notin> set (columns (assign_Month csv))"
    using assms by (simp add: columns_assign_Month)
  moreover have "get_Waste_Type (columns (assign_Month csv)) = get_Waste_Type (columns csv)"
    by (rule ext) (simp add: get_Waste_Type_def columns_assign_Month)
  ultimately show ?thesis
    by (simp add: load_data_def assign_Bin_Color_def)
       (simp add: assign_Month_def get_Waste_Type_def)
qed

text \<open>
  C1. When \<open>load_data\<close> derives \<open>Bin_Color\<close> (the file has no such column), every record's
  \<open>Bin_Color\<close> is the value of the decision table at its \<open>Infectious\<close> cell and its
  waste-type text: Red for "Yes" with "Sharps" in the text, Yellow for "Yes" otherwise,
  Blue for anything but "Yes" with "Recyclable" in the text, Black otherwise; a missing
  \<open>Waste_Type\<close> counts as the empty text.
\<close>

theorem load_data_Bin_Color_is_decision_table:
  assumes "''Bin_Color'' \<notin> set (columns csv)"
    and "x \<in> set (rows (load_data csv))"
  shows "Bin_Color x = Str (decision_table (Infectious x) (waste_type_text (columns csv) x))"
proof -
  from assms obtain x0 where x0: "x0 \<in> set (rows csv)"
    and x: "x = x0\<lparr>Month := strftime_B (Date x0),
               Bin_Color := Str (get_bin_color (Infectious x0) (get_Waste_Type (columns csv) x0))\<rparr>"
    by (auto simp: rows_load_data_fresh)
  have "waste_type_text (columns csv) x = waste_type_text (columns csv) x0"
    by (simp add: x waste_type_text_def)
  then show ?thesis
    by (simp add: x get_bin_color_table get_Waste_Type_text)
qed

theorem load_data_Bin_Color_witness:
  "''Bin_Color'' \<notin> set (columns example_csv)
   \<and> record1\<lparr>Month := Str ''March'', Bin_Color := Str ''Red''\<rparr> \<in> set (rows (load_data example_csv))
   \<and> Bin_Color (record1\<lparr>Month := Str ''March'', Bin_Color := Str ''Red''\<rparr>) = Str ''Red''
   \<and> decision_table (Str ''Yes'') (waste_type_text (columns example_csv) record1) = ''Red''"
  using load_data_Bin_Color_is_decision_table
    [of example_csv "record1\<lparr>Month := Str ''March'', Bin_Color := Str ''Red''\<rparr>"]
  by (simp add: example_csv_def record1_def load_data_def assign_Bin_Color_def assign_Month_def
      set_column_def get_Waste_Type_def get_bin_color_def startswith_def waste_type_text_def)

text \<open>
  C7. The classifier returns a value on every pair of cells, and the value is one of
  Red, Yellow, Blue and Black: each of its four branches ends in a \<open>return\<close>.
\<close>

theorem get_bin_color_total:
  "(\<exists>!c. get_bin_color infectious waste_type = c)
   \<and> get_bin_color infectious waste_type \<in> {''Red'', ''Yellow'', ''Blue'', ''Black''}"
  by (simp add: get_bin_color_def)

subsection \<open>The data set, loaded\<close>

lemma load_data_example:
  "load_data example_csv =
     \<lparr>columns = [''Date'', ''Department'', ''Weight_kg'', ''Infectious'', ''Waste_Type'',
                 ''Month'', ''Bin_Color''],
      rows = [record1\<lparr>Month := Str ''March'', Bin_Color := Str ''Red''\<rparr>,
              record2\<lparr>Month := Str ''March'', Bin_Color := Str ''Blue''\<rparr>,
              record3\<lparr>Month := Str ''January'', Bin_Color := Str ''Black''\<rparr>,
              record4\<lparr>Month := Str ''January'', Bin_Color := Str ''Yellow''\<rparr>]\<rparr>"
  by (simp add: example_csv_def record1_def record2_def record3_def record4_def load_data_def
      assign_Bin_Color_def assign_Month_def set_column_def get_Waste_Type_def get_bin_color_def
      startswith_def)

subsection \<open>The filter\<close>

text \<open>
  C3. A record is in the filtered frame exactly when it is in the frame, its \<open>Month\<close> is
  one of the selected months and its \<open>Department\<close> is one of the selected departments;
  the filtered frame is these records in their order, under the same columns. With no
  month selected, or no department selected, it has no record.
\<close>

theorem filtered_df_membership:
  "(x \<in> set (rows (filtered_df df c)) \<longleftrightarrow>
      x \<in> set (rows df) \<and> Month x \<in> Str ` set (selected_months c)
      \<and> Department x \<in> set (selected_dept c))
   \<and> rows (filtered_df df c) =
      [x \<leftarrow> rows df. Month x \<in> Str ` set (selected_months c) \<and> Department x \<in> set (selected_dept c)]
   \<and> columns (filtered_df df c) = columns df
   \<and> rows (filtered_df df (c\<lparr>selected_months := []\<rparr>)) = []
   \<and> rows (filtered_df df (c\<lparr>selected_dept := []\<rparr>)) = []"
  by (simp add: filtered_df_def mask_row_def isin_def)

theorem filtered_df_membership_witness:
  "rows (filtered_df (load_data example_csv)
           \<lparr>selected_months = [''March''], selected_dept = [Str ''ICU'']\<rparr>)
     = [record1\<lparr>Month := Str ''March'', Bin_Color := Str ''Red''\<rparr>]
   \<and> rows (filtered_df (load_data example_csv)
           \<lparr>selected_months = [''January''], selected_dept = [Str ''ICU'']\<rparr>) = []
   \<and> rows (filtered_df (load_data example_csv)
           \<lparr>selected_months = [], selected_dept = [Str ''ICU'']\<rparr>) = []"
  using filtered_df_membership
    [of "record1\<lparr>Month := Str ''March'', Bin_Color := Str ''Red''\<rparr>" "load_data example_csv"
        "\<lparr>selected_months = [''March''], selected_dept = [Str ''ICU'']\<rparr>"]
  by (simp add: load_data_example record1_def record2_def record3_def record4_def
      filtered_df_def mask_row_def isin_def)

subsection \<open>Enrichment\<close>

text \<open>
  C5. The enrichment step writes \<open>Bin_Color\<close> only when the frame has no such column:
  on a frame that has it the step changes nothing, so running it a second time
  returns the once-enriched frame with the same \<open>Bin_Color\<close> values.
\<close>

theorem assign_Bin_Color_idempotent:
  "(''Bin_Color'' \<in> set (columns df) \<longrightarrow> assign_Bin_Color df = df)
   \<and> assign_Bin_Color (assign_Bin_Color df) = assign_Bin_Color df
   \<and> map Bin_Color (rows (assign_Bin_Color (assign_Bin_Color df)))
       = map Bin_Color (rows (assign_Bin_Color df))"
  by (simp add: assign_Bin_Color_def)

theorem assign_Bin_Color_idempotent_witness:
  "''Bin_Color'' \<in> set (columns (load_data example_csv))
   \<and> assign_Bin_Color (load_data example_csv) = load_data example_csv
   \<and> map Bin_Color (rows (assign_Bin_Color (load_data example_csv)))
       = [Str ''Red'', Str ''Blue'', Str ''Black'', Str ''Yellow'']"
  using assign_Bin_Color_idempotent [of "load_data example_csv"]
  by (simp add: load_data_example)

subsection \<open>Only "Yes" is infectious\<close>

text \<open>
  C10. A record whose \<open>Infectious\<close> cell is anything but the string "Yes" (another
  spelling, another word, a missing value) is classified on the non-infectious branch,
  Blue or Black, and its weight is not in the infectious-waste total: the total is the
  same with and without the record.
\<close>

theorem only_Yes_is_infectious:
  assumes "Infectious x \<noteq> Str ''Yes''"
  shows "get_bin_color (Infectious x) waste_type \<in> {''Blue'', ''Black''}
   \<and> infectious_waste \<lparr>columns = cols, rows = xs @ x # ys\<rparr>
       = infectious_waste \<lparr>columns = cols, rows = xs @ ys\<rparr>"
  using assms by (simp add: get_bin_color_def infectious_waste_def)

theorem only_Yes_is_infectious_witness:
  "Infectious record3 \<noteq> Str ''Yes''
   \<and> get_bin_color (Infectious record3) (Waste_Type record3) = ''Black''
   \<and> infectious_waste \<lparr>columns = [], rows = [record1] @ record3 # [record4]\<rparr> = 14.5
   \<and> infectious_waste \<lparr>columns = [], rows = [record1] @ [record4]\<rparr> = 14.5"
  using only_Yes_is_infectious [of record3 "Waste_Type record3" "[]" "[record1]" "[record4]"]
  by (simp add: record1_def record3_def record4_def infectious_waste_def series_sum_def
      get_bin_color_def startswith_def)

subsection \<open>The page\<close>

lemma format_zero: "format_f 1 (Some 0) = ''0.0''"
  by (simp add: format_f_def format_fixed_def round_half_even_def zero_pad_def)

lemma format_zero_Suc: "format_f (Suc 0) (Some 0) = ''0.0''"
  using format_zero by simp

lemma format_nan: "format_f 2 None = ''nan''"
  by (simp add: format_f_def)


lemma filtered_January_ICU_example:
  "rows (filtered_df (load_data example_csv)
      \<lparr>selected_months = [''January''], selected_dept = [Str ''ICU'']\<rparr>) = []"
  unfolding load_data_example
  by (simp add: filtered_df_def mask_row_def isin_def record1_def record2_def record3_def
      record4_def)


text \<open>
  C2, as the code has it. When the filtered frame has no record, the four key metrics
  are still produced: the total and the infectious total read \<open>0.0 kg\<close>, and the average
  and the maximum read \<open>nan kg\<close>, the \<open>NaN\<close> of an empty mean or maximum formatted as it
  is.
\<close>

theorem empty_filter_metrics:
  assumes "rows (filtered_df (load_data csv) c) = []"
  shows "kpi1 (app csv c) = ''0.0 kg'' \<and> kpi2 (app csv c) = ''0.0 kg''
    \<and> kpi3 (app csv c) = ''nan kg'' \<and> kpi4 (app csv c) = ''nan kg''"
  using assms
  by (simp add: app_def Let_def total_waste_def infectious_waste_def avg_daily_def max_waste_def
      series_sum_def series_mean_def series_max_def format_zero_Suc format_nan)

theorem empty_filter_metrics_witness:
  "rows (filtered_df (load_data example_csv)
      \<lparr>selected_months = [''January''], selected_dept = [Str ''ICU'']\<rparr>) = []
   \<and> kpi1 (app example_csv \<lparr>selected_months = [''January''], selected_dept = [Str ''ICU'']\<rparr>)
       = ''0.0 kg''
   \<and> kpi4 (app example_csv \<lparr>selected_months = [''January''], selected_dept = [Str ''ICU'']\<rparr>)
       = ''nan kg''"
  using empty_filter_metrics [OF filtered_January_ICU_example] filtered_January_ICU_example
  by simp

text \<open>
  C2 as stated fails: the data set has no January record of the ICU, and with that
  selection the average on the page is the text \<open>nan kg\<close>, neither "N/A" nor a zero.
\<close>

theorem empty_filter_average_counterexample:
  "rows (filtered_df (load_data example_csv)
      \<lparr>selected_months = [''January''], selected_dept = [Str ''ICU'']\<rparr>) = []
   \<and> kpi3 (app example_csv \<lparr>selected_months = [''January''], selected_dept = [Str ''ICU'']\<rparr>)
       = ''nan kg''
   \<and> py_in ''nan''
        (kpi3 (app example_csv \<lparr>selected_months = [''January''], selected_dept = [Str ''ICU'']\<rparr>))"
proof -
  have "kpi3 (app example_csv \<lparr>selected_months = [''January''], selected_dept = [Str ''ICU'']\<rparr>)
       = ''nan kg''"
    using filtered_January_ICU_example
    by (simp add: app_def Let_def avg_daily_def series_mean_def format_nan)
  with filtered_January_ICU_example show ?thesis by (simp add: startswith_def)
qed

text \<open>
  C8. The download button offers, under the name \<open>hospital_waste_audit_data.csv\<close> and
  encoded as UTF-8, the CSV of the filtered frame: its header line is the column names
  of the loaded (enriched) frame, its lines are the records that pass the filter, in
  their order, each with one value per column, so there is no column of row labels.
\<close>

theorem download_is_filtered_frame:
  "file_name (download_button (app csv c)) = ''hospital_waste_audit_data.csv''
   \<and> mime (download_button (app csv c)) = ''text/csv''
   \<and> codec (data (download_button (app csv c))) = ''utf-8''
   \<and> header (content (data (download_button (app csv c)))) = columns (load_data csv)
   \<and> lines (content (data (download_button (app csv c))))
       = map (\<lambda>x. map (csv_value_of x) (columns (load_data csv)))
           [x \<leftarrow> rows (load_data csv).
              Month x \<in> Str ` set (selected_months c) \<and> Department x \<in> set (selected_dept c)]
   \<and> map length (lines (content (data (download_button (app csv c)))))
       = replicate (length (rows (filtered_df (load_data csv) c))) (length (columns (load_data csv)))"
  by (simp add: app_def Let_def encode_def to_csv_def filtered_df_def mask_row_def isin_def
      map_replicate_const comp_def)

theorem download_is_filtered_frame_witness:
  "header (content (data (download_button (app example_csv
        \<lparr>selected_months = [''March''], selected_dept = [Str ''ICU'']\<rparr>))))
     = [''Date'', ''Department'', ''Weight_kg'', ''Infectious'', ''Waste_Type'', ''Month'',
        ''Bin_Color'']
   \<and> lines (content (data (download_button (app example_csv
        \<lparr>selected_months = [''March''], selected_dept = [Str ''ICU'']\<rparr>))))
     = [[Timestamp (Some \<lparr>ts_year = 2024, ts_month = March, ts_day = 5, ts_time = 0\<rparr>), Text (Str ''ICU''),
         Number (Some 12.5), Text (Str ''Yes''), Text (Str ''Sharps Container''),
         Text (Str ''March''), Text (Str ''Red'')]]"
  using download_is_filtered_frame
    [of example_csv "\<lparr>selected_months = [''March''], selected_dept = [Str ''ICU'']\<rparr>"]
  unfolding load_data_example
  by (simp add: csv_value_of_def record1_def record2_def record3_def record4_def)

subsection \<open>Grouped tables\<close>

lemma set_dropna: "set (dropna vs) = {v. Some v \<in> set vs}"
  by (induction vs) (auto split: option.splits)

lemma map_fst_groupby_sum: "map fst (groupby_sum key xs) = sort (remdups (dropna (map key xs)))"
  by (simp add: groupby_sum_def comp_def)

lemma keys_groupby_sum:
  "set (map fst (groupby_sum key xs)) = {k. \<exists>x\<in>set xs. key x = Some k}"
  unfolding map_fst_groupby_sum by (auto simp: set_dropna image_iff) metis

lemma grouped_table_groupby_sum: "grouped_table key xs (groupby_sum key xs)"
proof -
  have "distinct (map fst (groupby_sum key xs))"
    unfolding map_fst_groupby_sum by simp
  moreover have "\<forall>(k, v)\<in>set (groupby_sum key xs).
      v = series_sum (map Weight_kg [x \<leftarrow> xs. key x = Some k])"
    by (auto simp: groupby_sum_def)
  ultimately show ?thesis
    unfolding grouped_table_def using keys_groupby_sum[of key xs] by blast
qed


lemma grouped_table_mset:
  assumes "mset t' = mset t" and "grouped_table key xs t"
  shows "grouped_table key xs t'"
proof -
  have s: "set t' = set t" using assms(1) by (rule mset_eq_setD)
  have "mset (map fst t') = mset (map fst t)" using assms(1) by simp
  then have "distinct (map fst t') = distinct (map fst t)"
    by (rule mset_eq_imp_distinct_iff)
  then show ?thesis using assms(2) s unfolding grouped_table_def by simp
qed

lemma mset_sort_values: "mset (sort_values asc t) = mset t"
  by (simp add: sort_values_def)

lemma grouped_table_sort_values:
  "grouped_table key xs t \<Longrightarrow> grouped_table key xs (sort_values asc t)"
  by (rule grouped_table_mset[OF mset_sort_values])


lemma sum_list_delta0:
  "k0 \<notin> set ks \<Longrightarrow> (\<Sum>k\<leftarrow>ks. if k = k0 then (a::'a::comm_monoid_add) else 0) = 0"
  by (induction ks) auto

lemma sum_list_delta:
  "distinct ks \<Longrightarrow> k0 \<in> set ks \<Longrightarrow>
     (\<Sum>k\<leftarrow>ks. if k = k0 then (a::'a::comm_monoid_add) else 0) = a"
  by (induction ks) (auto simp: sum_list_delta0)

lemma sum_groups:
  fixes g :: "'r \<Rightarrow> 'a::comm_monoid_add"
  assumes "distinct ks"
    and "\<forall>x\<in>set xs. \<forall>k. key x = Some k \<longrightarrow> k \<in> set ks"
  shows "(\<Sum>k\<leftarrow>ks. sum_list (map g [x \<leftarrow> xs. key x = Some k]))
         = sum_list (map g [x \<leftarrow> xs. key x \<noteq> None])"
  using assms(2)
proof (induction xs)
  case Nil
  then show ?case by simp
next
  case (Cons x xs)
  show ?case
  proof (cases "key x")
    case None
    then show ?thesis using Cons by simp
  next
    case (Some k0)
    then have k0: "k0 \<in> set ks" using Cons.prems by simp
    have "(\<Sum>k\<leftarrow>ks. sum_list (map g [y \<leftarrow> x # xs. key y = Some k]))
        = (\<Sum>k\<leftarrow>ks. (if k = k0 then g x else 0)
               + sum_list (map g [y \<leftarrow> xs. key y = Some k]))"
      using Some by (intro arg_cong[where f=sum_list] map_cong) auto
    also have "\<dots> = (\<Sum>k\<leftarrow>ks. if k = k0 then g x else 0)
               + (\<Sum>k\<leftarrow>ks. sum_list (map g [y \<leftarrow> xs. key y = Some k]))"
      by (simp add: sum_list_addf)
    also have "\<dots> = g x + sum_list (map g [y \<leftarrow> xs. key y \<noteq> None])"
      using Cons sum_list_delta[OF assms(1) k0, of "g x"] by simp
    finally show ?thesis using Some by simp
  qed
qed

lemma mset_as_sum_list: "mset ys = sum_list (map (\<lambda>x. {#x#}) ys)"
  by (induction ys) auto

lemma mset_groups:
  assumes "distinct ks"
    and "\<forall>x\<in>set xs. \<forall>k. key x = Some k \<longrightarrow> k \<in> set ks"
  shows "mset (concat (map (\<lambda>k. [x \<leftarrow> xs. key x = Some k]) ks)) = mset [x \<leftarrow> xs. key x \<noteq> None]"
proof -
  have "mset (concat (map (\<lambda>k. [x \<leftarrow> xs. key x = Some k]) ks))
      = (\<Sum>k\<leftarrow>ks. mset [x \<leftarrow> xs. key x = Some k])"
    by (simp add: mset_concat comp_def)
  also have "\<dots> = (\<Sum>k\<leftarrow>ks. sum_list (map (\<lambda>x. {#x#}) [x \<leftarrow> xs. key x = Some k]))"
    using mset_as_sum_list by metis
  also have "\<dots> = sum_list (map (\<lambda>x. {#x#}) [x \<leftarrow> xs. key x \<noteq> None])"
    by (rule sum_groups[OF assms])
  finally show ?thesis using mset_as_sum_list by metis
qed

lemma cell_key_Some: "cell_key v = Some d \<longleftrightarrow> v = Str d"
  by (cases v) auto

lemma cell_key_None: "cell_key v = None \<longleftrightarrow> v = NaN"
  by (cases v) simp_all

lemma grouped_table_dept_group:
  "grouped_table (\<lambda>x. cell_key (Department x)) (rows fdf) (dept_group fdf)"
  unfolding dept_group_def by (rule grouped_table_sort_values[OF grouped_table_groupby_sum])

text \<open>
  C4, as the code has it. For every filter selection the by-department table has one
  line per \<open>Department\<close> value of the filtered records and no value twice; the value on a
  line is the sum of \<open>Weight_kg\<close> over the filtered records of that department; and the
  lines' groups together are exactly the filtered records that have a \<open>Department\<close>, each
  of them in one group. So the table adds up the weights of the filtered records that
  have a \<open>Department\<close>, while the Totals total adds those of all filtered records.
  (The two results are sums of floating-point numbers taken in different orders; that
  they are the same number is not stated.)
\<close>

theorem dept_group_partitions_filtered_records:
  "distinct (map fst (dept_group (filtered_df df c)))
   \<and> set (map fst (dept_group (filtered_df df c)))
       = {d. Str d \<in> Department ` set (rows (filtered_df df c))}
   \<and> (\<forall>(d, v)\<in>set (dept_group (filtered_df df c)).
         v = series_sum (map Weight_kg [x \<leftarrow> rows (filtered_df df c). Department x = Str d]))
   \<and> mset (concat (map (\<lambda>(d, v). [x \<leftarrow> rows (filtered_df df c). Department x = Str d])
               (dept_group (filtered_df df c))))
       = mset [x \<leftarrow> rows (filtered_df df c). Department x \<noteq> NaN]"
proof -
  let ?xs = "rows (filtered_df df c)"
  let ?t = "dept_group (filtered_df df c)"
  have g: "grouped_table (\<lambda>x. cell_key (Department x)) ?xs ?t"
    by (rule grouped_table_dept_group)
  then have d: "distinct (map fst ?t)" by (simp add: grouped_table_def)
  have k: "set (map fst ?t) = {d. Str d \<in> Department ` set ?xs}"
    using g unfolding grouped_table_def by (force simp: cell_key_Some image_iff)
  have v: "\<forall>(d, v)\<in>set ?t. v = series_sum (map Weight_kg [x \<leftarrow> ?xs. Department x = Str d])"
    using g unfolding grouped_table_def by (simp add: cell_key_Some)
  have c: "\<forall>x\<in>set ?xs. \<forall>k. cell_key (Department x) = Some k \<longrightarrow> k \<in> set (map fst ?t)"
    unfolding k by (force simp: cell_key_Some image_iff)
  have "mset (concat (map (\<lambda>(d, v). [x \<leftarrow> ?xs. Department x = Str d]) ?t))
      = mset (concat (map (\<lambda>d. [x \<leftarrow> ?xs. cell_key (Department x) = Some d]) (map fst ?t)))"
    by (simp add: comp_def case_prod_unfold cell_key_Some)
  also have "\<dots> = mset [x \<leftarrow> ?xs. cell_key (Department x) \<noteq> None]"
    by (rule mset_groups[OF d c])
  finally have m: "mset (concat (map (\<lambda>(d, v). [x \<leftarrow> ?xs. Department x = Str d]) ?t))
      = mset [x \<leftarrow> ?xs. Department x \<noteq> NaN]"
    by (simp add: cell_key_None)
  show ?thesis using d k v m by blast
qed


lemma sidebar_accepts_iff:
  "sidebar_accepts df \<longleftrightarrow> \<not> float64_column (map Department (rows df))"
proof -
  have m: "multiselect_accepts True (map Str ms) (map Str ms)" for ms
    by (simp add: multiselect_accepts_def py_in_list_def list_all_iff)
  have d: "multiselect_accepts b (unique cs) (unique cs) \<longleftrightarrow> (NaN \<in> set cs \<longrightarrow> b)" for b cs
    by (auto simp: multiselect_accepts_def py_in_list_def list_all_iff unique_def
        split: cell.splits)
  have "(NaN \<in> set cs \<longrightarrow> \<not> float64_column cs) \<longleftrightarrow> \<not> float64_column cs" for cs
    by (cases cs) (auto simp: float64_column_def list_all_iff)
  from this[of "map Department (rows df)"] show ?thesis
    unfolding sidebar_accepts_def by (simp only: m d simp_thms)
qed

lemma default_controls_example:
  "default_controls (load_data example_csv) =
     Inr \<lparr>selected_months = [''January'', ''March''], selected_dept = [Str ''ICU'', Str ''Lab'']\<rparr>"
  unfolding load_data_example
  by (simp add: default_controls_def sidebar_accepts_iff float64_column_def
      available_months_def month_order_def
      unique_def record1_def record2_def record3_def record4_def)



lemma filtered_default_example:
  "filtered_df (load_data example_csv)
      \<lparr>selected_months = [''January'', ''March''], selected_dept = [Str ''ICU'', Str ''Lab'']\<rparr>
     = load_data example_csv"
  unfolding load_data_example
  by (simp add: filtered_df_def mask_row_def isin_def record1_def record2_def record3_def
      record4_def)

lemma dept_group_example:
  "dept_group (load_data example_csv) = [(''Lab'', 9.5), (''ICU'', 12.5)]"
  unfolding load_data_example
  by (simp add: dept_group_def groupby_sum_def sort_values_def series_sum_def
      record1_def record2_def record3_def record4_def)


theorem dept_group_partition_witness:
  "dept_group (filtered_df (load_data example_csv)
      \<lparr>selected_months = [''January'', ''March''], selected_dept = [Str ''ICU'', Str ''Lab'']\<rparr>)
     = [(''Lab'', 9.5), (''ICU'', 12.5)]
   \<and> distinct (map fst (dept_group (filtered_df (load_data example_csv)
      \<lparr>selected_months = [''January'', ''March''], selected_dept = [Str ''ICU'', Str ''Lab'']\<rparr>)))"
  using dept_group_partitions_filtered_records
    [of "load_data example_csv"
        "\<lparr>selected_months = [''January'', ''March''], selected_dept = [Str ''ICU'', Str ''Lab'']\<rparr>",
     THEN conjunct1]
  by (simp add: filtered_default_example dept_group_example)

lemma load_data_missing_department:
  "load_data missing_department_csv =
     \<lparr>columns = [''Date'', ''Department'', ''Weight_kg'', ''Infectious'', ''Month'', ''Bin_Color''],
      rows = [record1\<lparr>Department := NaN, Month := Str ''March'', Bin_Color := Str ''Yellow''\<rparr>,
              record2\<lparr>Month := Str ''March'', Bin_Color := Str ''Black''\<rparr>]\<rparr>"
  by (simp add: missing_department_csv_def record1_def record2_def load_data_def
      assign_Bin_Color_def assign_Month_def set_column_def get_Waste_Type_def get_bin_color_def
      startswith_def)


lemma default_controls_missing_department:
  "default_controls (load_data missing_department_csv)
     = Inr \<lparr>selected_months = [''March''], selected_dept = [NaN, Str ''Lab'']\<rparr>"
  unfolding load_data_missing_department
  by (simp add: default_controls_def sidebar_accepts_iff float64_column_def
      available_months_def month_order_def unique_def record1_def record2_def)

lemma filtered_missing_department:
  "filtered_df (load_data missing_department_csv)
        \<lparr>selected_months = [''March''], selected_dept = [NaN, Str ''Lab'']\<rparr>
     = load_data missing_department_csv"
  unfolding load_data_missing_department
  by (simp add: filtered_df_def mask_row_def isin_def record1_def record2_def)

lemma total_waste_missing_department:
  "total_waste (load_data missing_department_csv) = 15.5"
  unfolding load_data_missing_department
  by (simp add: total_waste_def series_sum_def record1_def record2_def)

lemma dept_group_missing_department:
  "dept_group (load_data missing_department_csv) = [(''Lab'', 3)]"
  unfolding load_data_missing_department
  by (simp add: dept_group_def groupby_sum_def sort_values_def series_sum_def
      record1_def record2_def)

text \<open>
  C4 as stated fails on a file of two March records, 12.5 kg with an empty
  \<open>Department\<close> field and 3 kg of the Lab: with the default selection both are in the
  filtered frame and the total is 15.5, while the by-department table has the one line
  of the Lab, 3. (Both sums are exact in floating point as well.)
\<close>

theorem dept_group_sum_counterexample:
  "default_controls (load_data missing_department_csv)
     = Inr \<lparr>selected_months = [''March''], selected_dept = [NaN, Str ''Lab'']\<rparr>
   \<and> total_waste (filtered_df (load_data missing_department_csv)
        \<lparr>selected_months = [''March''], selected_dept = [NaN, Str ''Lab'']\<rparr>) = 15.5
   \<and> dept_group (filtered_df (load_data missing_department_csv)
        \<lparr>selected_months = [''March''], selected_dept = [NaN, Str ''Lab'']\<rparr>) = [(''Lab'', 3)]
   \<and> sum_list (map snd (dept_group (filtered_df (load_data missing_department_csv)
        \<lparr>selected_months = [''March''], selected_dept = [NaN, Str ''Lab'']\<rparr>)))
      \<noteq> total_waste (filtered_df (load_data missing_department_csv)
        \<lparr>selected_months = [''March''], selected_dept = [NaN, Str ''Lab'']\<rparr>)"
  by (simp add: default_controls_missing_department filtered_missing_department
      total_waste_missing_department dept_group_missing_department)

subsection \<open>The default selection\<close>

lemma set_unique: "set (unique xs) = set xs"
  by (simp add: unique_def)

lemma month_name_in_order: "month_name m \<in> set month_order"
  by (cases m) (simp_all add: month_order_def)

lemma rows_load_data_Month:
  "x \<in> set (rows (load_data csv)) \<Longrightarrow> Month x = strftime_B (Date x)"
  by (auto simp: load_data_def assign_Bin_Color_def assign_Month_def split: if_splits)

lemma Date_load_data: "Date ` set (rows (load_data csv)) = Date ` set (rows csv)"
  by (auto simp: load_data_def assign_Bin_Color_def assign_Month_def image_iff split: if_splits)

lemma Department_load_data: "map Department (rows (load_data csv)) = map Department (rows csv)"
  by (simp add: load_data_def assign_Bin_Color_def assign_Month_def comp_def)

lemma mask_default:
  assumes "x \<in> set (rows (load_data csv))"
  shows "mask_row \<lparr>selected_months = available_months (load_data csv),
                    selected_dept = unique (map Department (rows (load_data csv)))\<rparr> x
         \<longleftrightarrow> Date x \<noteq> None"
proof (cases "Date x")
  case None
  then have "Month x = NaN" using rows_load_data_Month[OF assms] by simp
  then show ?thesis using None
    by (auto simp: mask_row_def isin_def)
next
  case (Some t)
  then have m: "Month x = Str (month_name (ts_month t))"
    using rows_load_data_Month[OF assms] by simp
  have "Str (month_name (ts_month t)) \<in> Month ` set (rows (load_data csv))"
    using assms m by (metis image_eqI)
  then have "month_name (ts_month t) \<in> set (available_months (load_data csv))"
    by (simp add: available_months_def set_unique month_name_in_order)
  moreover have "Department x \<in> set (unique (map Department (rows (load_data csv))))"
    using assms by (simp add: set_unique)
  ultimately show ?thesis using Some m
    by (simp add: mask_row_def isin_def)
qed

text \<open>
  C6, as the code has it. The sidebar raises \<open>StreamlitAPIException\<close> exactly when the
  \<open>Department\<close> column holds no value at all. Otherwise the default selections are the
  month names of \<open>month_order\<close> that occur in the data and every distinct \<open>Department\<close>
  value, and with them the filter keeps exactly the records that have a date: it returns
  the whole frame unchanged when every record has one. With no month selected, or no
  department selected, the result has no record.
\<close>

theorem default_filter:
  "(default_controls (load_data csv) = Inl StreamlitAPIException
      \<longleftrightarrow> float64_column (map Department (rows csv)))
   \<and> (\<forall>c. default_controls (load_data csv) = Inr c \<longrightarrow>
         rows (filtered_df (load_data csv) c) = [x \<leftarrow> rows (load_data csv). Date x \<noteq> None])
   \<and> (\<forall>c. default_controls (load_data csv) = Inr c \<and> (\<forall>x\<in>set (rows csv). Date x \<noteq> None) \<longrightarrow>
         filtered_df (load_data csv) c = load_data csv)
   \<and> rows (filtered_df (load_data csv) (c0\<lparr>selected_months := []\<rparr>)) = []
   \<and> rows (filtered_df (load_data csv) (c0\<lparr>selected_dept := []\<rparr>)) = []"
proof -
  let ?d = "\<lparr>selected_months = available_months (load_data csv),
             selected_dept = unique (map Department (rows (load_data csv)))\<rparr>"
  have 0: "default_controls (load_data csv) = Inl StreamlitAPIException
      \<longleftrightarrow> float64_column (map Department (rows csv))"
    by (simp add: default_controls_def sidebar_accepts_iff Department_load_data)
  have c: "c = ?d" if "default_controls (load_data csv) = Inr c" for c
    using that by (simp add: default_controls_def split: if_splits)
  have 1: "rows (filtered_df (load_data csv) ?d) = [x \<leftarrow> rows (load_data csv). Date x \<noteq> None]"
    unfolding filtered_df_def by (simp cong: filter_cong add: mask_default)
  have 2: "filtered_df (load_data csv) ?d = load_data csv"
    if "\<forall>x\<in>set (rows csv). Date x \<noteq> None"
  proof -
    have "\<forall>x\<in>set (rows (load_data csv)). Date x \<noteq> None"
    proof
      fix x assume "x \<in> set (rows (load_data csv))"
      then have "Date x \<in> Date ` set (rows csv)"
        using Date_load_data[of csv] by blast
      then show "Date x \<noteq> None" using that by auto
    qed
    then have "[x \<leftarrow> rows (load_data csv). Date x \<noteq> None] = rows (load_data csv)"
      by (simp add: filter_id_conv)
    with 1 have "rows (filtered_df (load_data csv) ?d) = rows (load_data csv)" by simp
    then show ?thesis by (simp add: filtered_df_def)
  qed
  have 3: "rows (filtered_df (load_data csv) (c0\<lparr>selected_months := []\<rparr>)) = []"
    "rows (filtered_df (load_data csv) (c0\<lparr>selected_dept := []\<rparr>)) = []"
    by (simp_all add: filtered_df_def mask_row_def isin_def)
  show ?thesis using 0 1 2 3 c by blast
qed

lemma load_data_no_date:
  "load_data no_date_csv =
     \<lparr>columns = [''Date'', ''Department'', ''Weight_kg'', ''Infectious'', ''Month'', ''Bin_Color''],
      rows = [record1\<lparr>Date := None, Month := NaN, Bin_Color := Str ''Yellow''\<rparr>]\<rparr>"
  by (simp add: no_date_csv_def record1_def load_data_def
      assign_Bin_Color_def assign_Month_def set_column_def get_Waste_Type_def get_bin_color_def
      startswith_def)

lemma default_controls_no_date:
  "default_controls (load_data no_date_csv)
     = Inr \<lparr>selected_months = [], selected_dept = [Str ''ICU'']\<rparr>"
  unfolding load_data_no_date
  by (simp add: default_controls_def sidebar_accepts_iff float64_column_def
      available_months_def month_order_def unique_def record1_def)

text \<open>
  C6 as stated fails on a file with a record whose \<open>Date\<close> field is empty: the record
  has no month name, no month is offered for it, and the default filter drops it.
\<close>

theorem default_filter_counterexample:
  "default_controls (load_data no_date_csv)
     = Inr \<lparr>selected_months = [], selected_dept = [Str ''ICU'']\<rparr>
   \<and> rows (filtered_df (load_data no_date_csv)
        \<lparr>selected_months = [], selected_dept = [Str ''ICU'']\<rparr>) = []
   \<and> filtered_df (load_data no_date_csv) \<lparr>selected_months = [], selected_dept = [Str ''ICU'']\<rparr>
      \<noteq> load_data no_date_csv"
proof -
  have "rows (filtered_df (load_data no_date_csv)
        \<lparr>selected_months = [], selected_dept = [Str ''ICU'']\<rparr>) = []"
    by (simp add: filtered_df_def mask_row_def isin_def)
  moreover have "rows (load_data no_date_csv) \<noteq> []"
    unfolding load_data_no_date by simp
  ultimately show ?thesis
    using default_controls_no_date by auto
qed

theorem default_filter_witness:
  "default_controls (load_data example_csv)
     = Inr \<lparr>selected_months = [''January'', ''March''], selected_dept = [Str ''ICU'', Str ''Lab'']\<rparr>
   \<and> filtered_df (load_data example_csv)
        \<lparr>selected_months = [''January'', ''March''], selected_dept = [Str ''ICU'', Str ''Lab'']\<rparr>
      = load_data example_csv
   \<and> rows (filtered_df (load_data example_csv)
        \<lparr>selected_months = [], selected_dept = [Str ''ICU'', Str ''Lab'']\<rparr>) = []"
proof -
  have d: "\<forall>x\<in>set (rows example_csv). Date x \<noteq> None"
    by (simp add: example_csv_def record1_def record2_def record3_def record4_def)
  show ?thesis
    using default_filter [of example_csv
        "\<lparr>selected_months = [''March''], selected_dept = [Str ''ICU'', Str ''Lab'']\<rparr>"]
      d default_controls_example
    by simp
qed

subsection \<open>A missing waste-type column\<close>




















subsection \<open>More of the page on the data set\<close>

lemma sort_values_ties:
  "sort_values False [(''Alpha'', 1), (''Beta'', 1), (''Gamma'', 2)]
     = [(''Gamma'', 2), (''Alpha'', 1), (''Beta'', 1)]"
  "sort_values True [(''Gamma'', 2), (''Alpha'', 1), (''Beta'', 1)]
     = [(''Alpha'', 1), (''Beta'', 1), (''Gamma'', 2)]"
  by (simp_all add: sort_values_def)

lemma type_group_example:
  "type_group (load_data example_csv)
     = [(''Sharps Container'', 12.5), (''Gauze'', 4.5), (''Recyclable Plastic'', 3)]"
  unfolding load_data_example
  by (simp add: type_group_def groupby_sum_def sort_values_def series_sum_def
      record1_def record2_def record3_def record4_def)

lemma page_example:
  "caption (app example_csv
      \<lparr>selected_months = [''January'', ''March''], selected_dept = [Str ''ICU'', Str ''Lab'']\<rparr>)
     = ''**Reporting Period:** January, March 2024''"
  "fig_type (app example_csv
      \<lparr>selected_months = [''January'', ''March''], selected_dept = [Str ''ICU'', Str ''Lab'']\<rparr>)
     = Chart [(''Sharps Container'', 12.5), (''Gauze'', 4.5), (''Recyclable Plastic'', 3)]"
  "fig_pie (app example_csv
      \<lparr>selected_months = [''January'', ''March''], selected_dept = [Str ''ICU'', Str ''Lab'']\<rparr>)
     = Chart [(Str ''Yes'', Some 12.5), (Str ''No'', Some 3), (Str ''yes'', Some 4.5),
              (Str ''Yes'', Some 2)]"
  unfolding app_def Let_def filtered_default_example
  by (simp_all add: period_text_def type_group_example)
     (simp_all add: load_data_example record1_def record2_def record3_def record4_def)

end
